theory Spec2Isabelle
  imports Complex_Main "HOL-Library.Sublist" "HOL-Library.Multiset"
begin

section \<open>Ticket triage: a shallow embedding of utils/triage.py\<close>

text \<open>
  The embedding follows \<^verbatim>\<open>src/utils/triage.py\<close>.  A Python \<^verbatim>\<open>str\<close> is a
  \<open>string\<close>; since every keyword of the heuristic is ASCII, a text may be read as its UTF-8
  bytes: an ASCII keyword occurs in a text exactly where its bytes occur in the encoding.
  \<^verbatim>\<open>str.lower\<close> belongs to the Python runtime and is Unicode aware, so the functions
  below take it as the parameter \<open>lower\<close> and every general theorem holds for whatever
  function the runtime provides.  \<open>ascii_lower\<close> is what \<^verbatim>\<open>str.lower\<close> does on
  ASCII text; it is the instance at which concrete tickets are evaluated.
\<close>

subsection \<open>Strings\<close>

fun lower_ascii_char :: "char \<Rightarrow> char" where
  "lower_ascii_char (Char b0 b1 b2 b3 b4 b5 b6 b7) =
     (let n = (of_char (Char b0 b1 b2 b3 b4 b5 b6 b7) :: nat)
      in if 65 \<le> n \<and> n \<le> 90 then Char b0 b1 b2 b3 b4 True b6 b7
         else Char b0 b1 b2 b3 b4 b5 b6 b7)"

definition ascii_lower :: "string \<Rightarrow> string" where
  "ascii_lower s = map lower_ascii_char s"

text \<open>
  \<open>str_in kw s\<close> is Python's \<^verbatim>\<open>kw in s\<close> on two strings: \<open>kw\<close> occurs in \<open>s\<close> as a
  contiguous run, starting at the head of \<open>s\<close> or further in.
\<close>

fun str_in :: "string \<Rightarrow> string \<Rightarrow> bool" where
  "str_in kw [] = (kw = [])"
| "str_in kw (c # cs) = (prefix kw (c # cs) \<or> str_in kw cs)"

subsection \<open>Exceptions, cells, unpickled objects and the file system\<close>

datatype error =
    AttributeError
  | IndexError
  | KeyError
  | TypeError
  | ValueError
  | ValidationError
  | UnpicklingError
  | EOFError
  | ParserError
  | EmptyDataError
  | UnicodeDecodeError
  | FileNotFoundError
  | FileExistsError

text \<open>
  A cell of a data frame, as \<^verbatim>\<open>pandas.read_csv\<close> fills it: a string, a number, or
  \<^verbatim>\<open>NaN\<close> for a cell left empty.  A document handed to a vectorizer is a cell too: the
  ticket text, a string, at inference, and a cell of the \<open>text\<close> column in training.
\<close>

datatype cell = Str string | Num rat | NaN

text \<open>
  An object found in the artifact is what it keeps (\<open>attrs\<close>) and how it answers the two
  method calls \<^verbatim>\<open>predict_category\<close> makes.  A call returns a value or raises, and
  returns the object's attributes as the call left them; an object without the method is one
  whose call raises \<open>AttributeError\<close>.  \<open>'x\<close> is the type of a feature matrix.  The
  classifier and the vectorizer of a triager are two objects, as \<^verbatim>\<open>save_model\<close> writes
  them.
\<close>

record ('s, 'x) pyobject =
  attrs :: 's
  transform :: "'s \<Rightarrow> cell list \<Rightarrow> (error + 'x) \<times> 's"
  predict :: "'s \<Rightarrow> 'x \<Rightarrow> (error + string list) \<times> 's"

text \<open>A data frame is its row count and its columns by name.\<close>

record dataframe =
  nrows :: nat
  columns :: "string \<rightharpoonup> cell list"

text \<open>
  A file is one of four things.  It is a pickle, as \<^verbatim>\<open>pickle.dump\<close> writes it, of a
  dictionary (a key is absent, or bound to \<^verbatim>\<open>None\<close>, or bound to an object), or of an
  object that has no \<^verbatim>\<open>get\<close>.  Or it is a table that \<^verbatim>\<open>pandas.read_csv\<close> parses,
  kept with the exception \<^verbatim>\<open>pickle.load\<close> raises on it.  Or it is any other file, kept
  with the exception \<^verbatim>\<open>pickle.load\<close> raises on it and the exception
  \<^verbatim>\<open>pandas.read_csv\<close> raises on it: for an empty file these are \<open>EOFError\<close> and
  \<open>EmptyDataError\<close>.
\<close>

datatype ('s, 'x) file_content =
    PickledDict "string \<rightharpoonup> ('s, 'x) pyobject option"
  | PickledObject
  | CsvFile dataframe error
  | OtherFile error error

record ('s, 'x) world =
  files :: "string \<rightharpoonup> ('s, 'x) file_content"
  stdout :: "string list"

definition print :: "string \<Rightarrow> ('s, 'x) world \<Rightarrow> ('s, 'x) world" where
  "print line w = w\<lparr>stdout := stdout w @ [line]\<rparr>"

text \<open>\<^verbatim>\<open>data.get(key)\<close>: \<^verbatim>\<open>None\<close> for an absent key.\<close>

definition dict_get :: "('k \<rightharpoonup> 'v option) \<Rightarrow> 'k \<Rightarrow> 'v option" where
  "dict_get data key = (case data key of None \<Rightarrow> None | Some v \<Rightarrow> v)"

text \<open>\<^verbatim>\<open>d[key]\<close> on a dictionary written as a list of items.\<close>

definition dict_item :: "('k \<times> 'v) list \<Rightarrow> 'k \<Rightarrow> error + 'v" where
  "dict_item d key = (case map_of d key of None \<Rightarrow> Inl KeyError | Some v \<Rightarrow> Inr v)"

subsection \<open>class TicketTriager\<close>

record ('s, 'x) TicketTriager =
  model_path :: string
  model :: "('s, 'x) pyobject option"
  vectorizer :: "('s, 'x) pyobject option"

definition load_model ::
  "('s, 'x) world \<Rightarrow> ('s, 'x) TicketTriager \<Rightarrow>
     (error + ('s, 'x) TicketTriager) \<times> ('s, 'x) world" where
  "load_model w self =
     (case files w (model_path self) of
        Some f \<Rightarrow>
          (case f of
             PickledDict data \<Rightarrow>
               (Inr (self\<lparr>model := dict_get data ''model'',
                          vectorizer := dict_get data ''vectorizer''\<rparr>), w)
           | PickledObject \<Rightarrow> (Inl AttributeError, w)
           | CsvFile df unpickling \<Rightarrow> (Inl unpickling, w)
           | OtherFile unpickling parsing \<Rightarrow> (Inl unpickling, w))
      | None \<Rightarrow>
          (Inr self, print (''Warning: Model file not found at '' @ model_path self) w))"

text \<open>\<^verbatim>\<open>TicketTriager(model_path)\<close>, that is \<^verbatim>\<open>__init__\<close>.\<close>

definition TicketTriager_init ::
  "('s, 'x) world \<Rightarrow> string \<Rightarrow> (error + ('s, 'x) TicketTriager) \<times> ('s, 'x) world" where
  "TicketTriager_init w path =
     load_model w \<lparr>model_path = path, model = None, vectorizer = None\<rparr>"

text \<open>
  \<^verbatim>\<open>predict_category\<close> returns its value or the exception raised, and the triager as the
  calls left it: the method assigns no attribute of \<^verbatim>\<open>self\<close>, the two objects change
  only as their own methods change them.  The order is the source's: \<^verbatim>\<open>transform\<close>
  on the list of the one text, then \<^verbatim>\<open>predict\<close>, then element 0 of the prediction.
\<close>

definition predict_category ::
  "('s, 'x) TicketTriager \<Rightarrow> string \<Rightarrow> (error + string) \<times> ('s, 'x) TicketTriager" where
  "predict_category self ticket_text =
     (case (model self, vectorizer self) of
        (Some m, Some v) \<Rightarrow>
          \<comment> \<open>neither is \<^verbatim>\<open>None\<close>; every other case is the source's early return\<close>
          (case transform v (attrs v) [Str ticket_text] of
             (Inl e, sv) \<Rightarrow> (Inl e, self\<lparr>vectorizer := Some (v\<lparr>attrs := sv\<rparr>)\<rparr>)
           | (Inr text_vector, sv) \<Rightarrow>
               (case predict m (attrs m) text_vector of
                  (Inl e, sm) \<Rightarrow>
                    (Inl e, self\<lparr>model := Some (m\<lparr>attrs := sm\<rparr>),
                                  vectorizer := Some (v\<lparr>attrs := sv\<rparr>)\<rparr>)
                | (Inr labels, sm) \<Rightarrow>
                    (case labels of
                       [] \<Rightarrow> Inl IndexError
                     | category # rest \<Rightarrow> Inr category,
                     self\<lparr>model := Some (m\<lparr>attrs := sm\<rparr>),
                          vectorizer := Some (v\<lparr>attrs := sv\<rparr>)\<rparr>)))
      | _ \<Rightarrow> (Inr ''uncategorized'', self))"

text \<open>
  \<^verbatim>\<open>predict_priority\<close> is a method, so it receives \<^verbatim>\<open>self\<close>, and reads none of it.
  No step of it can raise on a \<^verbatim>\<open>str\<close>, so its value is a plain string.
\<close>

definition predict_priority ::
  "(string \<Rightarrow> string) \<Rightarrow> ('s, 'x) TicketTriager \<Rightarrow> string \<Rightarrow> string" where
  "predict_priority lower self ticket_text =
     (let ticket_lower = lower ticket_text;
          high_priority_keywords =
            [''urgent'', ''critical'', ''emergency'', ''down'', ''outage'',
             ''not working'', ''broken'', ''security'', ''breach''];
          medium_priority_keywords =
            [''issue'', ''problem'', ''error'', ''bug'', ''slow'',
             ''performance'', ''help'']
      in if list_ex (\<lambda>keyword. str_in keyword ticket_lower) high_priority_keywords
         then ''high''
         else if list_ex (\<lambda>keyword. str_in keyword ticket_lower) medium_priority_keywords
         then ''medium''
         else ''low'')"

definition triage_ticket ::
  "(string \<Rightarrow> string) \<Rightarrow> ('s, 'x) TicketTriager \<Rightarrow> string \<Rightarrow> string \<Rightarrow>
     (error + (string \<times> string) list) \<times> ('s, 'x) TicketTriager" where
  "triage_ticket lower self title description =
     (let ticket_text = title @ '' '' @ description
      in case predict_category self ticket_text of
           (Inl e, self') \<Rightarrow> (Inl e, self')
         | (Inr category, self') \<Rightarrow>
             (let priority = predict_priority lower self' ticket_text
              in (Inr [(''category'', category), (''priority'', priority)], self')))"

section \<open>Training: a shallow embedding of train.py\<close>

text \<open>
  What \<^verbatim>\<open>train.py\<close> calls in scikit-learn and in the runtime is a parameter, the record
  \<open>lib\<close>: each field is one call of the source with its arguments, returning a value or the
  exception raised.  \<^verbatim>\<open>random_state\<close> is an option, \<^verbatim>\<open>None\<close> being the library's
  default.  The fitted vectorizer and classifier are objects as above.
\<close>

record ('s, 'x) sklearn =
  train_test_split ::
    "cell list \<Rightarrow> cell list \<Rightarrow> rat \<Rightarrow> nat option \<Rightarrow> cell list \<Rightarrow>
       error + (cell list \<times> cell list \<times> cell list \<times> cell list)"
  fit_transform :: "nat \<Rightarrow> string \<Rightarrow> cell list \<Rightarrow> error + (('s, 'x) pyobject \<times> 'x)"
  fit :: "'x \<Rightarrow> cell list \<Rightarrow> error + ('s, 'x) pyobject"
  accuracy_score :: "cell list \<Rightarrow> string list \<Rightarrow> error + rat"
  format_4f :: "rat \<Rightarrow> string"
  classification_report :: "cell list \<Rightarrow> string list \<Rightarrow> error + string"

text \<open>\<^verbatim>\<open>str(n)\<close> of a count, as an f-string writes it.\<close>

fun str_nat :: "nat \<Rightarrow> string" where
  "str_nat n =
     (if n < 10 then [''0123456789'' ! n]
      else str_nat (n div 10) @ [''0123456789'' ! (n mod 10)])"

definition rule50 :: string where
  "rule50 = replicate 50 (CHR ''='')"

text \<open>
  A pickle that \<^verbatim>\<open>pickle.dump\<close> wrote starts with the byte 0x80, which is not UTF-8, so
  \<^verbatim>\<open>pandas.read_csv\<close> raises \<open>UnicodeDecodeError\<close> on it.
\<close>

definition load_training_data ::
  "('s, 'x) world \<Rightarrow> string \<Rightarrow> (error + dataframe option) \<times> ('s, 'x) world" where
  "load_training_data w data_path =
     (case files w data_path of
        None \<Rightarrow>
          (Inr None,
           print ''Please run 'python data/generate_synthetic.py' first to generate synthetic data.''
             (print (''Error: Training data file not found at '' @ data_path) w))
      | Some f \<Rightarrow>
          (case f of
             CsvFile df unpickling \<Rightarrow>
               (Inr (Some df),
                print (''Loaded '' @ str_nat (nrows df) @ '' tickets from '' @ data_path) w)
           | PickledDict data \<Rightarrow> (Inl UnicodeDecodeError, w)
           | PickledObject \<Rightarrow> (Inl UnicodeDecodeError, w)
           | OtherFile unpickling parsing \<Rightarrow> (Inl parsing, w)))"

text \<open>\<^verbatim>\<open>df[name]\<close>.\<close>

definition getitem :: "dataframe \<Rightarrow> string \<Rightarrow> error + cell list" where
  "getitem df name = (case columns df name of None \<Rightarrow> Inl KeyError | Some cells \<Rightarrow> Inr cells)"

text \<open>
  \<^verbatim>\<open>+\<close> on two cells, as pandas adds two columns of objects element by element: a
  missing value on either side gives a missing value, two strings are joined, a string and a
  number raise \<open>TypeError\<close>.  \<open>sequence\<close> collects the cells, the first exception winning.
\<close>

fun cell_add :: "cell \<Rightarrow> cell \<Rightarrow> error + cell" where
  "cell_add NaN b = Inr NaN"
| "cell_add a NaN = Inr NaN"
| "cell_add (Str a) (Str b) = Inr (Str (a @ b))"
| "cell_add (Num a) (Num b) = Inr (Num (a + b))"
| "cell_add a b = Inl TypeError"

fun sequence :: "(error + 'a) list \<Rightarrow> error + 'a list" where
  "sequence [] = Inr []"
| "sequence (Inl e # rs) = Inl e"
| "sequence (Inr v # rs) = (case sequence rs of Inl e \<Rightarrow> Inl e | Inr vs \<Rightarrow> Inr (v # vs))"

text \<open>
  A column that \<^verbatim>\<open>read_csv\<close> filled has the dtype \<^verbatim>\<open>object\<close> when it is empty or
  holds a string, and a numeric dtype otherwise (numbers and empty cells only).  Adding a
  string to a numeric column raises \<open>TypeError\<close>.
\<close>

definition object_dtype :: "cell list \<Rightarrow> bool" where
  "object_dtype cells \<longleftrightarrow>
     cells = [] \<or> list_ex (\<lambda>c. case c of Str s \<Rightarrow> True | _ \<Rightarrow> False) cells"

definition series_add_str :: "cell list \<Rightarrow> string \<Rightarrow> error + cell list" where
  "series_add_str cells s =
     (if object_dtype cells then sequence (map (\<lambda>c. cell_add c (Str s)) cells)
      else Inl TypeError)"

definition series_add :: "cell list \<Rightarrow> cell list \<Rightarrow> error + cell list" where
  "series_add xs ys = sequence (map2 cell_add xs ys)"

definition prepare_features ::
  "dataframe \<Rightarrow> error + (dataframe \<times> cell list \<times> cell list)" where
  "prepare_features df =
     (case getitem df ''title'' of
        Inl e \<Rightarrow> Inl e
      | Inr titles \<Rightarrow>
          (case series_add_str titles '' '' of
             Inl e \<Rightarrow> Inl e
           | Inr spaced \<Rightarrow>
               (case getitem df ''description'' of
                  Inl e \<Rightarrow> Inl e
                | Inr descriptions \<Rightarrow>
                    (case series_add spaced descriptions of
                       Inl e \<Rightarrow> Inl e
                     | Inr text \<Rightarrow>
                         (let df' = df\<lparr>columns := (columns df)(''text'' \<mapsto> text)\<rparr>
                          in case getitem df' ''text'' of
                               Inl e \<Rightarrow> Inl e
                             | Inr X \<Rightarrow>
                                 (case getitem df' ''category'' of
                                    Inl e \<Rightarrow> Inl e
                                  | Inr y \<Rightarrow> Inr (df', X, y)))))))"

definition train_model ::
  "('s, 'x) sklearn \<Rightarrow> cell list \<Rightarrow> cell list \<Rightarrow>
     error + (('s, 'x) pyobject \<times> ('s, 'x) pyobject)" where
  "train_model lib X_train y_train =
     (case fit_transform lib 1000 ''english'' X_train of
        Inl e \<Rightarrow> Inl e
      | Inr (fitted_vectorizer, X_train_tfidf) \<Rightarrow>
          (case fit lib X_train_tfidf y_train of
             Inl e \<Rightarrow> Inl e
           | Inr fitted_model \<Rightarrow> Inr (fitted_model, fitted_vectorizer)))"

text \<open>
  \<^verbatim>\<open>evaluate_model\<close> returns the two objects as its calls left them, since
  \<^verbatim>\<open>main\<close> pickles them afterwards.
\<close>

definition evaluate_model ::
  "('s, 'x) sklearn \<Rightarrow> ('s, 'x) world \<Rightarrow> ('s, 'x) pyobject \<Rightarrow> ('s, 'x) pyobject \<Rightarrow>
     cell list \<Rightarrow> cell list \<Rightarrow>
     (error + (('s, 'x) pyobject \<times> ('s, 'x) pyobject)) \<times> ('s, 'x) world" where
  "evaluate_model lib w fitted_model fitted_vectorizer X_test y_test =
     (case transform fitted_vectorizer (attrs fitted_vectorizer) X_test of
        (Inl e, sv) \<Rightarrow> (Inl e, w)
      | (Inr X_test_tfidf, sv) \<Rightarrow>
          (case predict fitted_model (attrs fitted_model) X_test_tfidf of
             (Inl e, sm) \<Rightarrow> (Inl e, w)
           | (Inr y_pred, sm) \<Rightarrow>
               (let w1 = print rule50 (print ''MODEL EVALUATION''
                           (print ([CHR 0x0A] @ rule50) w))
                in case accuracy_score lib y_test y_pred of
                     Inl e \<Rightarrow> (Inl e, w1)
                   | Inr accuracy \<Rightarrow>
                       (let w2 = print ([CHR 0x0A] @ ''Classification Report:'')
                                   (print ([CHR 0x0A] @ ''Accuracy: '' @ format_4f lib accuracy) w1)
                        in case classification_report lib y_test y_pred of
                             Inl e \<Rightarrow> (Inl e, w2)
                           | Inr report \<Rightarrow>
                               (Inr (fitted_model\<lparr>attrs := sm\<rparr>,
                                     fitted_vectorizer\<lparr>attrs := sv\<rparr>),
                                print report w2)))))"

text \<open>
  \<^verbatim>\<open>os.path.dirname\<close>: the path up to its last slash, without the slashes that end
  it unless it is slashes only.
\<close>

definition dirname :: "string \<Rightarrow> string" where
  "dirname p =
     (let head = rev (dropWhile (\<lambda>c. c \<noteq> CHR ''/'') (rev p))
      in if head \<noteq> [] \<and> \<not> list_all (\<lambda>c. c = CHR ''/'') head
         then rev (dropWhile (\<lambda>c. c = CHR ''/'') (rev head))
         else head)"

text \<open>
  \<^verbatim>\<open>os.makedirs(name, exist_ok=True)\<close>.  The file system here keeps files and no
  directories: the call raises \<open>FileNotFoundError\<close> on the empty name and
  \<open>FileExistsError\<close> on the name of a file, and is taken to succeed otherwise.
\<close>

definition makedirs :: "('s, 'x) world \<Rightarrow> string \<Rightarrow> error + unit" where
  "makedirs w name =
     (if name = [] then Inl FileNotFoundError
      else if files w name \<noteq> None then Inl FileExistsError
      else Inr ())"

definition save_model ::
  "('s, 'x) world \<Rightarrow> ('s, 'x) pyobject \<Rightarrow> ('s, 'x) pyobject \<Rightarrow> string \<Rightarrow>
     (error + unit) \<times> ('s, 'x) world" where
  "save_model w fitted_model fitted_vectorizer output_path =
     (case makedirs w (dirname output_path) of
        Inl e \<Rightarrow> (Inl e, w)
      | Inr u \<Rightarrow>
          (Inr (),
           print ([CHR 0x0A] @ ''Model saved to '' @ output_path)
             (w\<lparr>files := (files w)(output_path \<mapsto>
                  PickledDict [''model'' \<mapsto> Some fitted_model,
                               ''vectorizer'' \<mapsto> Some fitted_vectorizer])\<rparr>)))"

definition main :: "('s, 'x) sklearn \<Rightarrow> ('s, 'x) world \<Rightarrow> (error + unit) \<times> ('s, 'x) world" where
  "main lib w =
     (let w0 = print rule50 (print ''AI TICKET SCHEDULER - MODEL TRAINING'' (print rule50 w))
      in case load_training_data w0 ''sample_data/synthetic_tickets.csv'' of
           (Inl e, w1) \<Rightarrow> (Inl e, w1)
         | (Inr None, w1) \<Rightarrow> (Inr (), w1)
         | (Inr (Some df), w1) \<Rightarrow>
             (case prepare_features df of
                Inl e \<Rightarrow> (Inl e, w1)
              | Inr (df', X, y) \<Rightarrow>
                  (case train_test_split lib X y (2 / 10) (Some 42) y of
                     Inl e \<Rightarrow> (Inl e, w1)
                   | Inr (X_train, X_test, y_train, y_test) \<Rightarrow>
                       (let w2 = print ([CHR 0x0A] @ ''Training model...'')
                                   (print (''Test set size: '' @ str_nat (length X_test))
                                     (print ([CHR 0x0A] @ ''Training set size: ''
                                               @ str_nat (length X_train)) w1))
                        in case train_model lib X_train y_train of
                             Inl e \<Rightarrow> (Inl e, w2)
                           | Inr (fitted_model, fitted_vectorizer) \<Rightarrow>
                               (case evaluate_model lib w2 fitted_model fitted_vectorizer
                                       X_test y_test of
                                  (Inl e, w3) \<Rightarrow> (Inl e, w3)
                                | (Inr (fitted_model', fitted_vectorizer'), w3) \<Rightarrow>
                                    (case save_model w3 fitted_model' fitted_vectorizer'
                                            ''models/triage_model.pkl'' of
                                       (Inl e, w4) \<Rightarrow> (Inl e, w4)
                                     | (Inr u, w4) \<Rightarrow>
                                         (Inr (),
                                          print rule50
                                            (print ''Training completed successfully!''
                                              (print ([CHR 0x0A] @ rule50) w4)))))))))"

section \<open>The split, modelled from the specification\<close>

text \<open>
  Modelled from the spec: the seeded shuffle inside scikit-learn's
  \<^verbatim>\<open>train_test_split\<close>, which is not in the repository.  The specification asks of it
  that a fixed seed fixes the order; here the seed turns the list round by that many places.
\<close>

definition seeded_shuffle :: "nat \<Rightarrow> 'a list \<Rightarrow> 'a list" where
  "seeded_shuffle seed xs = (let k = seed mod length xs in drop k xs @ take k xs)"

text \<open>
  Modelled from the spec: the number of test rows scikit-learn's \<^verbatim>\<open>train_test_split\<close>
  takes out of \<open>n\<close>, which is not in the repository: the share \<open>test_size\<close>, rounded up.
\<close>

definition test_count :: "rat \<Rightarrow> nat \<Rightarrow> nat" where
  "test_count test_size n = nat \<lceil>test_size * of_nat n\<rceil>"

text \<open>
  Modelled from the spec: the rows of one class, by position, as scikit-learn's
  \<^verbatim>\<open>train_test_split\<close> (not in the repository) groups them when it stratifies.
\<close>

definition members :: "'c list \<Rightarrow> 'c \<Rightarrow> nat list" where
  "members stratify c = filter (\<lambda>i. stratify ! i = c) [0..<length stratify]"

text \<open>
  Modelled from the spec: scikit-learn's \<^verbatim>\<open>train_test_split(X, y, test_size,
  random_state, stratify)\<close>, which \<^verbatim>\<open>train.py\<close> calls and the repository does not
  contain.  The specification says of it: the data are split into train and test, 80/20,
  stratified by label so that every class is represented in both splits, reproducibly given
  a fixed random seed.  So each class is shuffled by the seed and gives its share
  \<open>test_size\<close>, rounded up, to the test split and the rest to the train split; a class that
  cannot be in both splits, and columns of different lengths, raise \<open>ValueError\<close>.  Without
  a seed the shuffle is by \<open>entropy\<close>, which differs from run to run.
\<close>

definition stratified_split ::
  "nat \<Rightarrow> 'a list \<Rightarrow> 'b list \<Rightarrow> rat \<Rightarrow> nat option \<Rightarrow> 'c list \<Rightarrow>
     error + ('a list \<times> 'a list \<times> 'b list \<times> 'b list)" where
  "stratified_split entropy X y test_size random_state stratify =
     (let seed = (case random_state of Some s \<Rightarrow> s | None \<Rightarrow> entropy);
          classes = remdups stratify;
          group = (\<lambda>c. seeded_shuffle seed (members stratify c));
          k = (\<lambda>c. test_count test_size (length (group c)))
      in if length X \<noteq> length y \<or> length y \<noteq> length stratify then Inl ValueError
         else if list_ex (\<lambda>c. k c = 0 \<or> length (group c) \<le> k c) classes then Inl ValueError
         else (let test = concat (map (\<lambda>c. take (k c) (group c)) classes);
                   train = concat (map (\<lambda>c. drop (k c) (group c)) classes)
               in Inr (map ((!) X) train, map ((!) X) test,
                       map ((!) y) train, map ((!) y) test)))"

section \<open>The ticket table and the REST endpoint: db.py and api.py\<close>

text \<open>
  A row of the table \<^verbatim>\<open>tickets\<close>.  The three nullable columns are options; \<open>'t\<close> is the
  type of a timestamp.
\<close>

record 't Ticket =
  id' :: nat
  title :: string
  description :: string
  category :: "string option"
  priority :: "string option"
  status :: "string option"
  created_at :: 't
  updated_at :: 't

text \<open>
  \<^verbatim>\<open>DatabaseManager.create_ticket\<close> adds one row and returns it as the session reads it
  back.  The storage gives the row the next integer key; the column defaults give a status
  that was left \<^verbatim>\<open>None\<close> the value \<^verbatim>\<open>'open'\<close> and the two timestamps the two readings
  \<open>stamps\<close> of the clock.
\<close>

definition DatabaseManager_create_ticket ::
  "'t \<times> 't \<Rightarrow> 't Ticket list \<Rightarrow> string \<Rightarrow> string \<Rightarrow> string option \<Rightarrow> string option \<Rightarrow>
     string option \<Rightarrow> 't Ticket \<times> 't Ticket list" where
  "DatabaseManager_create_ticket stamps table title0 description0 category0 priority0 status0 =
     (let ticket =
            \<lparr>id' = Suc (fold max (map id' table) 0),
             title = title0,
             description = description0,
             category = category0,
             priority = priority0,
             status = (case status0 of None \<Rightarrow> Some ''open'' | Some s \<Rightarrow> Some s),
             created_at = fst stamps,
             updated_at = snd stamps\<rparr>
      in (ticket, table @ [ticket]))"

text \<open>The request body \<^verbatim>\<open>TicketCreate\<close> and the reply \<^verbatim>\<open>TicketResponse\<close>.\<close>

record TicketCreate =
  title :: string
  description :: string
  category :: "string option"
  priority :: "string option"
  status :: "string option"

record TicketResponse =
  id' :: nat
  title :: string
  description :: string
  category :: "string option"
  priority :: "string option"
  status :: string
  created_at :: string
  updated_at :: string

text \<open>The two module-level objects of \<^verbatim>\<open>api.py\<close>.\<close>

record ('s, 'x, 't) app =
  db_manager :: "'t Ticket list"
  triager :: "('s, 'x) TicketTriager"

text \<open>
  \<^verbatim>\<open>create_ticket\<close>: the request, updated in place by the triage block, is \<open>ticket2\<close>
  when the block is done.  \<open>str\<close> is \<^verbatim>\<open>str\<close> on a timestamp.
\<close>

definition create_ticket ::
  "(string \<Rightarrow> string) \<Rightarrow> 't \<times> 't \<Rightarrow> ('t \<Rightarrow> string) \<Rightarrow> ('s, 'x, 't) app \<Rightarrow> TicketCreate \<Rightarrow>
     (error + TicketResponse) \<times> ('s, 'x, 't) app" where
  "create_ticket lower stamps str globals ticket =
     (case
        (if TicketCreate.category ticket = None \<or> TicketCreate.priority ticket = None then
           (case triage_ticket lower (triager globals)
                   (TicketCreate.title ticket) (TicketCreate.description ticket) of
              (Inl e, triager') \<Rightarrow> (Inl e, triager')
            | (Inr triage_result, triager') \<Rightarrow>
                (case
                   (if TicketCreate.category ticket = None then
                      (case dict_item triage_result ''category'' of
                         Inl e \<Rightarrow> Inl e
                       | Inr c \<Rightarrow> Inr (ticket\<lparr>TicketCreate.category := Some c\<rparr>))
                    else Inr ticket) of
                   Inl e \<Rightarrow> (Inl e, triager')
                 | Inr ticket1 \<Rightarrow>
                     (if TicketCreate.priority ticket1 = None then
                        (case dict_item triage_result ''priority'' of
                           Inl e \<Rightarrow> (Inl e, triager')
                         | Inr p \<Rightarrow> (Inr (ticket1\<lparr>TicketCreate.priority := Some p\<rparr>), triager'))
                      else (Inr ticket1, triager'))))
         else (Inr ticket, triager globals)) of
        (Inl e, triager') \<Rightarrow> (Inl e, globals\<lparr>triager := triager'\<rparr>)
      | (Inr ticket2, triager') \<Rightarrow>
          (let (db_ticket, table') =
                 DatabaseManager_create_ticket stamps (db_manager globals)
                   (TicketCreate.title ticket2) (TicketCreate.description ticket2)
                   (TicketCreate.category ticket2) (TicketCreate.priority ticket2)
                   (TicketCreate.status ticket2);
               globals' = globals\<lparr>db_manager := table', triager := triager'\<rparr>
           in case Ticket.status db_ticket of
                None \<Rightarrow> (Inl ValidationError, globals')
              | Some status_str \<Rightarrow>
                  (Inr \<lparr>id' = Ticket.id' db_ticket,
                        title = Ticket.title db_ticket,
                        description = Ticket.description db_ticket,
                        category = Ticket.category db_ticket,
                        priority = Ticket.priority db_ticket,
                        status = status_str,
                        created_at = str (Ticket.created_at db_ticket),
                        updated_at = str (Ticket.updated_at db_ticket)\<rparr>,
                   globals')))"

section \<open>The reference the specification gives for the priority\<close>

text \<open>
  These definitions follow the specification's words, not the source: two keyword sets, a
  keyword being present when it is a substring of the lower-cased text, the high set tested
  first.
\<close>

definition high_priority_keyword_set :: "string set" where
  "high_priority_keyword_set =
     {''urgent'', ''critical'', ''emergency'', ''down'', ''outage'', ''not working'',
      ''broken'', ''security'', ''breach''}"

definition medium_priority_keyword_set :: "string set" where
  "medium_priority_keyword_set =
     {''issue'', ''problem'', ''error'', ''bug'', ''slow'', ''performance'', ''help''}"

definition is_substring :: "string \<Rightarrow> string \<Rightarrow> bool" where
  "is_substring k s \<longleftrightarrow> (\<exists>before after. s = before @ k @ after)"

definition priority_reference :: "(string \<Rightarrow> string) \<Rightarrow> string \<Rightarrow> string" where
  "priority_reference lower text =
     (if \<exists>k \<in> high_priority_keyword_set. is_substring k (lower text) then ''high''
      else if \<exists>k \<in> medium_priority_keyword_set. is_substring k (lower text) then ''medium''
      else ''low'')"

section \<open>Steady objects, and the concrete values the theorems are run on\<close>

text \<open>
  The states an object can be in: the one it was loaded with, and every state a call of one
  of its two methods leaves it in.
\<close>

inductive reachable :: "('s, 'x) pyobject \<Rightarrow> 's \<Rightarrow> bool" for obj :: "('s, 'x) pyobject" where
  loaded: "reachable obj (attrs obj)"
| transformed: "reachable obj s \<Longrightarrow> reachable obj (snd (transform obj s docs))"
| predicted: "reachable obj s \<Longrightarrow> reachable obj (snd (predict obj s x))"

text \<open>
  An object is steady when, in every state it can be in, its two methods answer what they
  answer in the state it was loaded with: a fitted estimator answers from its fitted
  parameters, whatever else it records as it is used.
\<close>

definition steady :: "('s, 'x) pyobject \<Rightarrow> bool" where
  "steady obj \<longleftrightarrow>
     (\<forall>s docs. reachable obj s \<longrightarrow>
        fst (transform obj s docs) = fst (transform obj (attrs obj) docs)) \<and>
     (\<forall>s x. reachable obj s \<longrightarrow>
        fst (predict obj s x) = fst (predict obj (attrs obj) x))"

text \<open>
  The same object: both absent, or both present with the same two methods, whatever each
  keeps.
\<close>

definition same_object :: "('s, 'x) pyobject option \<Rightarrow> ('s, 'x) pyobject option \<Rightarrow> bool" where
  "same_object a b =
     (case (a, b) of
        (None, None) \<Rightarrow> True
      | (Some p, Some q) \<Rightarrow> q = p\<lparr>attrs := attrs q\<rparr>
      | _ \<Rightarrow> False)"

text \<open>The triager after \<^verbatim>\<open>predict_category\<close> was called on each text of a list.\<close>

fun after_calls :: "('s, 'x) TicketTriager \<Rightarrow> string list \<Rightarrow> ('s, 'x) TicketTriager" where
  "after_calls self [] = self"
| "after_calls self (t # ts) = after_calls (snd (predict_category self t)) ts"

text \<open>
  A small vectorizer and a small classifier: the features of a document are the document, a
  document that mentions a password is an access ticket.  Neither keeps anything.
  \<open>caching_vectorizer\<close> records that it has been used, as a vectorizer that caches a check
  on its first call does; \<open>counting_classifier\<close> answers with the number of calls made.
\<close>

definition demo_vectorizer :: "(nat, cell list) pyobject" where
  "demo_vectorizer =
     \<lparr>attrs = 0,
      transform = (\<lambda>s docs. (Inr docs, s)),
      predict = (\<lambda>s x. (Inl AttributeError, s))\<rparr>"

definition demo_label :: "cell \<Rightarrow> string" where
  "demo_label doc =
     (case doc of
        Str d \<Rightarrow> if str_in ''password'' (ascii_lower d) then ''access'' else ''general''
      | _ \<Rightarrow> ''general'')"

definition demo_classifier :: "(nat, cell list) pyobject" where
  "demo_classifier =
     \<lparr>attrs = 0,
      transform = (\<lambda>s docs. (Inl AttributeError, s)),
      predict = (\<lambda>s x. (Inr (map demo_label x), s))\<rparr>"

definition caching_vectorizer :: "(nat, cell list) pyobject" where
  "caching_vectorizer =
     \<lparr>attrs = 0,
      transform = (\<lambda>s docs. (Inr docs, 1)),
      predict = (\<lambda>s x. (Inl AttributeError, s))\<rparr>"

definition counting_classifier :: "(nat, cell list) pyobject" where
  "counting_classifier =
     \<lparr>attrs = 0,
      transform = (\<lambda>s docs. (Inl AttributeError, s)),
      predict = (\<lambda>s x. (Inr (map (\<lambda>doc. str_nat s) x), Suc s))\<rparr>"

definition no_artifact :: "(nat, cell list) TicketTriager" where
  "no_artifact = \<lparr>model_path = ''models/triage_model.pkl'', model = None, vectorizer = None\<rparr>"

definition demo_triager :: "(nat, cell list) TicketTriager" where
  "demo_triager =
     \<lparr>model_path = ''models/triage_model.pkl'',
      model = Some demo_classifier,
      vectorizer = Some demo_vectorizer\<rparr>"

definition caching_triager :: "(nat, cell list) TicketTriager" where
  "caching_triager =
     \<lparr>model_path = ''models/triage_model.pkl'',
      model = Some demo_classifier,
      vectorizer = Some caching_vectorizer\<rparr>"

definition empty_world :: "(nat, cell list) world" where
  "empty_world = \<lparr>files = Map.empty, stdout = []\<rparr>"

text \<open>Two artifacts that are dictionaries and lack an entry.\<close>

definition world_without_model :: "(nat, cell list) world" where
  "world_without_model =
     \<lparr>files = [''models/triage_model.pkl'' \<mapsto>
                  PickledDict [''vectorizer'' \<mapsto> Some demo_vectorizer]],
      stdout = []\<rparr>"

definition world_with_none_vectorizer :: "(nat, cell list) world" where
  "world_with_none_vectorizer =
     \<lparr>files = [''models/triage_model.pkl'' \<mapsto>
                  PickledDict [''model'' \<mapsto> Some demo_classifier, ''vectorizer'' \<mapsto> None]],
      stdout = []\<rparr>"

text \<open>A library in which every call raises.\<close>

definition failing_lib :: "(nat, cell list) sklearn" where
  "failing_lib =
     \<lparr>train_test_split = (\<lambda>X y test_size random_state stratify. Inl ValueError),
      fit_transform = (\<lambda>max_features stop_words X. Inl ValueError),
      fit = (\<lambda>X y. Inl ValueError),
      accuracy_score = (\<lambda>y_true y_pred. Inl ValueError),
      format_4f = (\<lambda>a. []),
      classification_report = (\<lambda>y_true y_pred. Inl ValueError)\<rparr>"

text \<open>
  A library that splits as the specification says and fits the two small objects, and a file
  system with ten labelled tickets, five of each class.
\<close>

definition demo_lib :: "(nat, cell list) sklearn" where
  "demo_lib =
     \<lparr>train_test_split = stratified_split 0,
      fit_transform = (\<lambda>max_features stop_words X. Inr (demo_vectorizer, X)),
      fit = (\<lambda>X y. Inr demo_classifier),
      accuracy_score = (\<lambda>y_true y_pred. Inr (if y_true = map Str y_pred then 1 else 0)),
      format_4f = (\<lambda>a. if a = 1 then ''1.0000'' else ''0.0000''),
      classification_report = (\<lambda>y_true y_pred. Inr ''report'')\<rparr>"

definition demo_titles :: "cell list" where
  "demo_titles =
     [Str ''Login'', Str ''Printer'', Str ''Reset'', Str ''Screen'', Str ''Locked out'',
      Str ''Mouse'', Str ''Account'', Str ''Desk'', Str ''Sign in'', Str ''Cable'']"

definition demo_descriptions :: "cell list" where
  "demo_descriptions =
     [Str ''password expired'', Str ''paper jam'', Str ''new password'', Str ''flickers'',
      Str ''forgot password'', Str ''is broken'', Str ''password rejected'', Str ''wobbles'',
      Str ''password loop'', Str ''too short'']"

definition demo_categories :: "cell list" where
  "demo_categories =
     [Str ''access'', Str ''general'', Str ''access'', Str ''general'', Str ''access'',
      Str ''general'', Str ''access'', Str ''general'', Str ''access'', Str ''general'']"

definition demo_frame :: dataframe where
  "demo_frame =
     \<lparr>nrows = 10,
      columns = [''title'' \<mapsto> demo_titles, ''description'' \<mapsto> demo_descriptions,
                 ''category'' \<mapsto> demo_categories]\<rparr>"

definition world_with_data :: "(nat, cell list) world" where
  "world_with_data =
     \<lparr>files = [''sample_data/synthetic_tickets.csv'' \<mapsto> CsvFile demo_frame UnpicklingError],
      stdout = []\<rparr>"

definition demo_request :: TicketCreate where
  "demo_request =
     \<lparr>TicketCreate.title = ''Printer'',
      TicketCreate.description = ''The printer is broken'',
      TicketCreate.category = Some ''hardware'',
      TicketCreate.priority = None,
      TicketCreate.status = None\<rparr>"

definition demo_globals :: "(nat, cell list, nat) app" where
  "demo_globals = \<lparr>db_manager = [], triager = no_artifact\<rparr>"

section \<open>Helper facts\<close>

declare str_nat.simps [simp del]

lemma str_in_sublist: "str_in kw s \<longleftrightarrow> sublist kw s"
  by (induction s) (auto simp: sublist_Cons_right)

lemma str_in_is_substring: "str_in kw s \<longleftrightarrow> is_substring kw s"
  by (simp add: str_in_sublist sublist_def is_substring_def)

lemma predict_category_no_model:
  "model self = None \<or> vectorizer self = None \<Longrightarrow>
     predict_category self text = (Inr ''uncategorized'', self)"
  by (auto simp: predict_category_def split: option.splits)

lemma not_substring_iff: "\<not> is_substring kw s \<longleftrightarrow> \<not> str_in kw s"
  by (simp add: str_in_is_substring)

lemma dict_get_None: "dict_get data key = None \<longleftrightarrow> data key = None \<or> data key = Some None"
  by (simp add: dict_get_def split: option.splits)

section \<open>The priority heuristic\<close>

text \<open>
  C1.  For every text, \<^verbatim>\<open>predict_priority\<close> is the three-case reference: \<open>high\<close> when
  the lower-cased text contains a keyword of the high set, whatever medium keywords it also
  contains; otherwise \<open>medium\<close> when it contains a keyword of the medium set; otherwise
  \<open>low\<close>.  The source's two lists, scanned in order with Python's \<^verbatim>\<open>in\<close>, decide what the
  reference's two sets and its substring relation decide.
\<close>

theorem predict_priority_refines_reference:
  "predict_priority lower self text = priority_reference lower text"
  by (simp add: predict_priority_def priority_reference_def Let_def str_in_is_substring
      high_priority_keyword_set_def medium_priority_keyword_set_def)

theorem predict_priority_refines_reference_witness:
  "priority_reference ascii_lower ''Urgent issue with printer'' = ''high''
   \<and> priority_reference ascii_lower ''there is a bug in the login page'' = ''medium''
   \<and> priority_reference ascii_lower ''please update my desk location'' = ''low''"
  using
    predict_priority_refines_reference
      [of ascii_lower no_artifact "''Urgent issue with printer''"]
    predict_priority_refines_reference
      [of ascii_lower no_artifact "''there is a bug in the login page''"]
    predict_priority_refines_reference
      [of ascii_lower no_artifact "''please update my desk location''"]
  by (simp add: predict_priority_def ascii_lower_def)

text \<open>
  C4.  For every text \<^verbatim>\<open>predict_priority\<close> returns one of \<open>low\<close>, \<open>medium\<close>, \<open>high\<close>;
  it has no exceptional outcome (its value is a string, not a sum with \<open>error\<close>).  On the
  empty string, which lower-cases to itself, no keyword matches and the value is \<open>low\<close>.
\<close>

theorem predict_priority_total:
  "predict_priority lower self text \<in> {''low'', ''medium'', ''high''}
   \<and> (lower [] = [] \<longrightarrow> predict_priority lower self [] = ''low'')"
  by (simp add: predict_priority_def Let_def)

theorem predict_priority_total_witness:
  "ascii_lower [] = [] \<and> predict_priority ascii_lower no_artifact [] = ''low''
   \<and> predict_priority ascii_lower no_artifact ''Printer is BROKEN''
       \<in> {''low'', ''medium'', ''high''}"
  using predict_priority_total [of ascii_lower no_artifact "''Printer is BROKEN''"]
  by (simp add: ascii_lower_def)

text \<open>
  C9.  Matching is substring containment, so a keyword inside another word counts.  Every
  text whose lower-cased form contains a keyword of the high set anywhere is \<open>high\<close>, and
  every text whose lower-cased form contains a keyword of the medium set anywhere, and none
  of the high set, is \<open>medium\<close>.  So \<open>download\<close> and \<open>shutdown\<close>, which contain
  \<open>down\<close>, are \<open>high\<close>, and \<open>debug\<close>, which contains \<open>bug\<close>, is \<open>medium\<close>.
\<close>

theorem substring_false_positives:
  "(kw \<in> high_priority_keyword_set \<and> is_substring kw (lower text) \<longrightarrow>
      predict_priority lower self text = ''high'')
   \<and> (kw \<in> medium_priority_keyword_set \<and> is_substring kw (lower text)
        \<and> (\<forall>h \<in> high_priority_keyword_set. \<not> is_substring h (lower text)) \<longrightarrow>
      predict_priority lower self text = ''medium'')
   \<and> predict_priority ascii_lower self ''download'' = ''high''
   \<and> predict_priority ascii_lower self ''shutdown'' = ''high''
   \<and> predict_priority ascii_lower self ''debug'' = ''medium''"
proof (intro conjI impI)
  assume "kw \<in> high_priority_keyword_set \<and> is_substring kw (lower text)"
  then show "predict_priority lower self text = ''high''"
    by (auto simp: predict_priority_def Let_def str_in_is_substring high_priority_keyword_set_def)
next
  assume "kw \<in> medium_priority_keyword_set \<and> is_substring kw (lower text)
        \<and> (\<forall>h \<in> high_priority_keyword_set. \<not> is_substring h (lower text))"
  then show "predict_priority lower self text = ''medium''"
    by (auto simp: predict_priority_def Let_def str_in_is_substring high_priority_keyword_set_def
        medium_priority_keyword_set_def)
next
  show "predict_priority ascii_lower self ''download'' = ''high''"
    by (simp add: predict_priority_def ascii_lower_def)
next
  show "predict_priority ascii_lower self ''shutdown'' = ''high''"
    by (simp add: predict_priority_def ascii_lower_def)
next
  show "predict_priority ascii_lower self ''debug'' = ''medium''"
    by (simp add: predict_priority_def ascii_lower_def)
qed

theorem substring_false_positives_witness:
  "''security'' \<in> high_priority_keyword_set
   \<and> is_substring ''security'' (ascii_lower ''Update my Social-Security number'')
   \<and> predict_priority ascii_lower no_artifact ''Update my Social-Security number'' = ''high''
   \<and> ''help'' \<in> medium_priority_keyword_set
   \<and> is_substring ''help'' (ascii_lower ''A very Helpful colleague'')
   \<and> predict_priority ascii_lower no_artifact ''A very Helpful colleague'' = ''medium''"
proof -
  have h1: "''security'' \<in> high_priority_keyword_set"
    by (simp add: high_priority_keyword_set_def)
  have "ascii_lower ''Update my Social-Security number''
          = ''update my social-'' @ ''security'' @ '' number''"
    by (simp add: ascii_lower_def)
  then have s1: "is_substring ''security'' (ascii_lower ''Update my Social-Security number'')"
    unfolding is_substring_def by (intro exI)
  have h2: "''help'' \<in> medium_priority_keyword_set"
    by (simp add: medium_priority_keyword_set_def)
  have l2: "ascii_lower ''A very Helpful colleague'' = ''a very '' @ ''help'' @ ''ful colleague''"
    by (simp add: ascii_lower_def)
  then have s2: "is_substring ''help'' (ascii_lower ''A very Helpful colleague'')"
    unfolding is_substring_def by (intro exI)
  have n2: "\<forall>h \<in> high_priority_keyword_set.
              \<not> is_substring h (ascii_lower ''A very Helpful colleague'')"
    unfolding not_substring_iff
    by (simp add: high_priority_keyword_set_def ascii_lower_def)
  from substring_false_positives
         [of "''security''" ascii_lower "''Update my Social-Security number''" no_artifact] h1 s1
  have r1: "predict_priority ascii_lower no_artifact ''Update my Social-Security number'' = ''high''"
    by blast
  from substring_false_positives
         [of "''help''" ascii_lower "''A very Helpful colleague''" no_artifact] h2 s2 n2
  have r2: "predict_priority ascii_lower no_artifact ''A very Helpful colleague'' = ''medium''"
    by blast
  from h1 s1 r1 h2 s2 r2 show ?thesis by (intro conjI)
qed

section \<open>Triage\<close>

text \<open>
  C3.  \<^verbatim>\<open>triage_ticket(title, description)\<close> returns the dictionary whose \<open>category\<close> is
  what \<^verbatim>\<open>predict_category\<close> returns on the title, one space and the description, and
  whose \<open>priority\<close> is what \<^verbatim>\<open>predict_priority\<close> returns on the same text; where
  \<^verbatim>\<open>predict_category\<close> raises, so does \<^verbatim>\<open>triage_ticket\<close>.  The category does not
  depend on \<open>lower\<close>, and the priority is the same whichever triager \<open>other\<close> computes it.
\<close>

theorem triage_ticket_composition:
  "fst (triage_ticket lower self t d) =
     (case fst (predict_category self (t @ '' '' @ d)) of
        Inl e \<Rightarrow> Inl e
      | Inr c \<Rightarrow>
          Inr [(''category'', c),
               (''priority'', predict_priority lower other (t @ '' '' @ d))])"
  by (simp add: triage_ticket_def Let_def predict_priority_def split: prod.splits sum.splits)

theorem triage_ticket_composition_witness:
  "fst (triage_ticket ascii_lower demo_triager ''Locked out'' ''I forgot my Password, urgent'') =
     Inr [(''category'', ''access''), (''priority'', ''high'')]"
proof -
  have c: "fst (predict_category demo_triager
                  (''Locked out'' @ '' '' @ ''I forgot my Password, urgent''))
             = Inr ''access''"
    by (simp add: predict_category_def demo_triager_def demo_vectorizer_def demo_classifier_def
        demo_label_def ascii_lower_def)
  have p: "predict_priority ascii_lower no_artifact
             (''Locked out'' @ '' '' @ ''I forgot my Password, urgent'') = ''high''"
    by (simp add: predict_priority_def ascii_lower_def)
  show ?thesis
    using triage_ticket_composition [of ascii_lower demo_triager "''Locked out''"
        "''I forgot my Password, urgent''" no_artifact]
    unfolding c p by simp
qed

section \<open>Loading the artifact\<close>

text \<open>
  C2.  When no file exists at the configured path, constructing the triager succeeds, logs
  the warning, and leaves \<open>model\<close> and \<open>vectorizer\<close> \<^verbatim>\<open>None\<close>; then
  \<^verbatim>\<open>predict_category\<close> returns \<open>uncategorized\<close> on every text, raises nothing and
  changes nothing, and \<^verbatim>\<open>predict_priority\<close> returns what it returns for any other
  triager.
\<close>

theorem missing_artifact_sentinel:
  fixes w :: "('s, 'x) world"
  assumes "files w path = None"
  shows "\<exists>self. TicketTriager_init w path =
                  (Inr self, print (''Warning: Model file not found at '' @ path) w)
           \<and> model self = None \<and> vectorizer self = None
           \<and> (\<forall>text. predict_category self text = (Inr ''uncategorized'', self))
           \<and> (\<forall>lower text other. predict_priority lower self text
                                   = predict_priority lower (other :: ('s, 'x) TicketTriager) text)"
proof (intro exI conjI allI)
  let ?self = "\<lparr>model_path = path, model = None, vectorizer = None\<rparr> :: ('s, 'x) TicketTriager"
  show "TicketTriager_init w path =
          (Inr ?self, print (''Warning: Model file not found at '' @ path) w)"
    using assms by (simp add: TicketTriager_init_def load_model_def)
  show "model ?self = None" by simp
  show "vectorizer ?self = None" by simp
  show "predict_category ?self ticket_text = (Inr ''uncategorized'', ?self)" for ticket_text
    by (rule predict_category_no_model) simp
  show "predict_priority lower ?self ticket_text = predict_priority lower other ticket_text"
    for lower ticket_text and other :: "('s, 'x) TicketTriager"
    by (simp add: predict_priority_def)
qed

theorem missing_artifact_sentinel_witness:
  "files empty_world ''models/triage_model.pkl'' = None
   \<and> TicketTriager_init empty_world ''models/triage_model.pkl'' =
       (Inr no_artifact,
        \<lparr>files = Map.empty,
         stdout = [''Warning: Model file not found at models/triage_model.pkl'']\<rparr>)
   \<and> predict_category no_artifact ''My laptop will not start''
       = (Inr ''uncategorized'', no_artifact)"
proof -
  have h: "files empty_world ''models/triage_model.pkl'' = None"
    by (simp add: empty_world_def)
  from missing_artifact_sentinel [OF h]
  obtain self :: "(nat, cell list) TicketTriager" where
    i: "TicketTriager_init empty_world ''models/triage_model.pkl'' =
          (Inr self, print (''Warning: Model file not found at '' @ ''models/triage_model.pkl'')
                       empty_world)"
    and s: "\<forall>text. predict_category self text = (Inr ''uncategorized'', self)"
    by blast
  have "TicketTriager_init empty_world ''models/triage_model.pkl'' =
          (Inr no_artifact,
           print (''Warning: Model file not found at '' @ ''models/triage_model.pkl'')
             empty_world)"
    by (simp add: TicketTriager_init_def load_model_def empty_world_def no_artifact_def)
  with i have e: "self = no_artifact" by simp
  show ?thesis
    using h i s unfolding e by (simp add: print_def empty_world_def)
qed

text \<open>
  C8.  When the file exists and holds a dictionary in which \<open>model\<close> or \<open>vectorizer\<close> is
  absent or bound to \<^verbatim>\<open>None\<close>, constructing the triager succeeds and prints nothing, and
  \<^verbatim>\<open>predict_category\<close> returns \<open>uncategorized\<close> on every text, raising nothing.
\<close>

theorem partial_artifact_sentinel:
  assumes "files w path = Some (PickledDict data)"
    and "data ''model'' = None \<or> data ''model'' = Some None
         \<or> data ''vectorizer'' = None \<or> data ''vectorizer'' = Some None"
  shows "\<exists>self. TicketTriager_init w path = (Inr self, w)
           \<and> (\<forall>text. predict_category self text = (Inr ''uncategorized'', self))"
proof -
  let ?self = "\<lparr>model_path = path, model = dict_get data ''model'',
                vectorizer = dict_get data ''vectorizer''\<rparr>"
  have i: "TicketTriager_init w path = (Inr ?self, w)"
    using assms(1) by (simp add: TicketTriager_init_def load_model_def)
  have "model ?self = None \<or> vectorizer ?self = None"
    using assms(2) by (simp add: dict_get_None)
  then have "predict_category ?self ticket_text = (Inr ''uncategorized'', ?self)"
    for ticket_text
    by (rule predict_category_no_model)
  with i show ?thesis by blast
qed

theorem partial_artifact_sentinel_witness:
  "(\<exists>self. TicketTriager_init world_without_model ''models/triage_model.pkl''
             = (Inr self, world_without_model)
          \<and> vectorizer self = Some demo_vectorizer
          \<and> predict_category self ''I forgot my password'' = (Inr ''uncategorized'', self))
   \<and> (\<exists>self. TicketTriager_init world_with_none_vectorizer ''models/triage_model.pkl''
             = (Inr self, world_with_none_vectorizer)
          \<and> model self = Some demo_classifier
          \<and> predict_category self ''I forgot my password'' = (Inr ''uncategorized'', self))"
proof (intro conjI)
  let ?p = "''models/triage_model.pkl''"
  let ?d1 = "[''vectorizer'' \<mapsto> Some demo_vectorizer]
               :: string \<rightharpoonup> (nat, cell list) pyobject option"
  let ?d2 = "[''model'' \<mapsto> Some demo_classifier, ''vectorizer'' \<mapsto> None]
               :: string \<rightharpoonup> (nat, cell list) pyobject option"
  have f1: "files world_without_model ?p = Some (PickledDict ?d1)"
    by (simp add: world_without_model_def)
  have m1: "?d1 ''model'' = None \<or> ?d1 ''model'' = Some None
            \<or> ?d1 ''vectorizer'' = None \<or> ?d1 ''vectorizer'' = Some None"
    by simp
  from partial_artifact_sentinel [OF f1 m1]
  obtain s1 where
    "TicketTriager_init world_without_model ?p = (Inr s1, world_without_model)"
    "\<forall>text. predict_category s1 text = (Inr ''uncategorized'', s1)"
    by blast
  moreover from this(1) have "vectorizer s1 = Some demo_vectorizer"
    by (auto simp: TicketTriager_init_def load_model_def world_without_model_def dict_get_def)
  ultimately show "\<exists>self. TicketTriager_init world_without_model ?p
             = (Inr self, world_without_model)
          \<and> vectorizer self = Some demo_vectorizer
          \<and> predict_category self ''I forgot my password'' = (Inr ''uncategorized'', self)"
    by blast
  have f2: "files world_with_none_vectorizer ?p = Some (PickledDict ?d2)"
    by (simp add: world_with_none_vectorizer_def)
  have m2: "?d2 ''model'' = None \<or> ?d2 ''model'' = Some None
            \<or> ?d2 ''vectorizer'' = None \<or> ?d2 ''vectorizer'' = Some None"
    by simp
  from partial_artifact_sentinel [OF f2 m2]
  obtain s2 where
    "TicketTriager_init world_with_none_vectorizer ?p = (Inr s2, world_with_none_vectorizer)"
    "\<forall>text. predict_category s2 text = (Inr ''uncategorized'', s2)"
    by blast
  moreover from this(1) have "model s2 = Some demo_classifier"
    by (auto simp: TicketTriager_init_def load_model_def world_with_none_vectorizer_def
        dict_get_def)
  ultimately show "\<exists>self. TicketTriager_init world_with_none_vectorizer ?p
             = (Inr self, world_with_none_vectorizer)
          \<and> model self = Some demo_classifier
          \<and> predict_category self ''I forgot my password'' = (Inr ''uncategorized'', self)"
    by blast
qed

section \<open>Category prediction with a loaded artifact\<close>

text \<open>
  What \<^verbatim>\<open>predict_category\<close> returns is decided by what the two methods return in the
  states the two objects are in, and a call leaves each object in a state it can reach.
\<close>

lemma predict_category_output:
  assumes "model s = Some (m\<lparr>attrs := sm\<rparr>)" and "vectorizer s = Some (v\<lparr>attrs := sv\<rparr>)"
  shows "fst (predict_category s text) =
           (case fst (transform v sv [Str text]) of
              Inl e \<Rightarrow> Inl e
            | Inr text_vector \<Rightarrow>
                (case fst (predict m sm text_vector) of
                   Inl e \<Rightarrow> Inl e
                 | Inr labels \<Rightarrow> (case labels of [] \<Rightarrow> Inl IndexError | c # rest \<Rightarrow> Inr c)))"
  using assms
  by (simp add: predict_category_def split: prod.splits sum.splits list.splits)

lemma predict_category_step:
  assumes "model s = Some (m\<lparr>attrs := sm\<rparr>)" and "vectorizer s = Some (v\<lparr>attrs := sv\<rparr>)"
    and "reachable m sm" and "reachable v sv"
  shows "model_path (snd (predict_category s text)) = model_path s
         \<and> (\<exists>sm' sv'. model (snd (predict_category s text)) = Some (m\<lparr>attrs := sm'\<rparr>)
                \<and> vectorizer (snd (predict_category s text)) = Some (v\<lparr>attrs := sv'\<rparr>)
                \<and> reachable m sm' \<and> reachable v sv')"
proof (cases "transform v sv [Str text]")
  case tv: (Pair r sv')
  have rv: "reachable v sv'"
    using reachable.transformed [OF assms(4), of "[Str text]"] tv by simp
  show ?thesis
  proof (cases r)
    case (Inl e)
    with tv assms rv show ?thesis
      by (auto simp: predict_category_def)
  next
    case (Inr text_vector)
    show ?thesis
    proof (cases "predict m sm text_vector")
      case pm: (Pair r' sm')
      have rm: "reachable m sm'"
        using reachable.predicted [OF assms(3), of text_vector] pm by simp
      from tv Inr pm assms rv rm show ?thesis
        by (cases r') (auto simp: predict_category_def)
    qed
  qed
qed

lemma after_calls_invariant:
  assumes "model s = Some (m\<lparr>attrs := sm\<rparr>)" and "vectorizer s = Some (v\<lparr>attrs := sv\<rparr>)"
    and "reachable m sm" and "reachable v sv"
  shows "model_path (after_calls s texts) = model_path s
         \<and> (\<exists>sm' sv'. model (after_calls s texts) = Some (m\<lparr>attrs := sm'\<rparr>)
                \<and> vectorizer (after_calls s texts) = Some (v\<lparr>attrs := sv'\<rparr>)
                \<and> reachable m sm' \<and> reachable v sv')"
  using assms
proof (induction texts arbitrary: s sm sv)
  case Nil
  then show ?case by auto
next
  case (Cons t ts)
  from predict_category_step [OF Cons.prems, of t]
  obtain sm' sv' where
    p: "model_path (snd (predict_category s t)) = model_path s"
    and m': "model (snd (predict_category s t)) = Some (m\<lparr>attrs := sm'\<rparr>)"
    and v': "vectorizer (snd (predict_category s t)) = Some (v\<lparr>attrs := sv'\<rparr>)"
    and r: "reachable m sm'" "reachable v sv'"
    by blast
  from Cons.IH [OF m' v' r] p show ?case by simp
qed

lemma steady_caching_vectorizer: "steady caching_vectorizer"
  by (simp add: steady_def caching_vectorizer_def)

lemma steady_demo_classifier: "steady demo_classifier"
  by (simp add: steady_def demo_classifier_def)

text \<open>
  C5, as amended.  With a classifier and a vectorizer loaded, both steady,
  \<^verbatim>\<open>predict_category\<close> returns for a text what it returned for it at first, after any
  calls on any texts; and the calls assign no attribute of the triager: the path is the
  same, and the classifier and the vectorizer are the same objects, changed at most in what
  their own methods keep.
\<close>

theorem predict_category_repeatable:
  assumes "model self = Some m" and "vectorizer self = Some v"
    and "steady m" and "steady v"
  shows "fst (predict_category (after_calls self texts) text) = fst (predict_category self text)
         \<and> model_path (after_calls self texts) = model_path self
         \<and> same_object (model self) (model (after_calls self texts))
         \<and> same_object (vectorizer self) (vectorizer (after_calls self texts))"
proof -
  have m0: "model self = Some (m\<lparr>attrs := attrs m\<rparr>)"
    and v0: "vectorizer self = Some (v\<lparr>attrs := attrs v\<rparr>)"
    using assms(1,2) by simp_all
  from after_calls_invariant [OF m0 v0 reachable.loaded reachable.loaded, of texts]
  obtain sm sv where
    p: "model_path (after_calls self texts) = model_path self"
    and m': "model (after_calls self texts) = Some (m\<lparr>attrs := sm\<rparr>)"
    and v': "vectorizer (after_calls self texts) = Some (v\<lparr>attrs := sv\<rparr>)"
    and r: "reachable m sm" "reachable v sv"
    by blast
  have tv: "fst (transform v sv docs) = fst (transform v (attrs v) docs)" for docs
    using assms(4) r(2) by (simp add: steady_def)
  have pm: "fst (predict m sm x) = fst (predict m (attrs m) x)" for x
    using assms(3) r(1) by (simp add: steady_def)
  have "fst (predict_category (after_calls self texts) text) = fst (predict_category self text)"
    unfolding predict_category_output [OF m' v'] predict_category_output [OF m0 v0] tv pm ..
  moreover have "same_object (model self) (model (after_calls self texts))"
    using assms(1) m' by (simp add: same_object_def)
  moreover have "same_object (vectorizer self) (vectorizer (after_calls self texts))"
    using assms(2) v' by (simp add: same_object_def)
  ultimately show ?thesis using p by simp
qed

theorem predict_category_repeatable_witness:
  "model caching_triager = Some demo_classifier
   \<and> vectorizer caching_triager = Some caching_vectorizer
   \<and> steady demo_classifier \<and> steady caching_vectorizer
   \<and> fst (predict_category caching_triager ''I forgot my Password'') = Inr ''access''
   \<and> fst (predict_category
            (after_calls caching_triager [''Printer is broken'', ''I forgot my Password''])
            ''I forgot my Password'') = Inr ''access''
   \<and> model_path (after_calls caching_triager [''Printer is broken'', ''I forgot my Password''])
       = ''models/triage_model.pkl''"
proof -
  have m: "model caching_triager = Some demo_classifier"
    and v: "vectorizer caching_triager = Some caching_vectorizer"
    by (simp_all add: caching_triager_def)
  have first: "fst (predict_category caching_triager ''I forgot my Password'') = Inr ''access''"
    by (simp add: predict_category_def caching_triager_def caching_vectorizer_def
        demo_classifier_def demo_label_def ascii_lower_def)
  have path: "model_path caching_triager = ''models/triage_model.pkl''"
    by (simp add: caching_triager_def)
  from predict_category_repeatable [OF m v steady_demo_classifier steady_caching_vectorizer,
      of "[''Printer is broken'', ''I forgot my Password'']" "''I forgot my Password''"]
    first path m v steady_demo_classifier steady_caching_vectorizer
  show ?thesis by simp
qed

text \<open>
  The claim as stated also says that the calls leave the triager's state as it was.  That
  fails: with a vectorizer that records its first use, two calls return the same category and
  the first leaves the triager changed.
\<close>

theorem predict_category_state_counterexample:
  "model caching_triager = Some demo_classifier
   \<and> vectorizer caching_triager = Some caching_vectorizer
   \<and> fst (predict_category caching_triager ''I forgot my Password'') = Inr ''access''
   \<and> fst (predict_category (snd (predict_category caching_triager ''I forgot my Password''))
            ''I forgot my Password'') = Inr ''access''
   \<and> snd (predict_category caching_triager ''I forgot my Password'') \<noteq> caching_triager"
  by (simp add: predict_category_def caching_triager_def caching_vectorizer_def
      demo_classifier_def demo_label_def ascii_lower_def)

text \<open>
  Steadiness is needed for the first part: a classifier that answers with the number of its
  calls is not steady, and two calls of \<^verbatim>\<open>predict_category\<close> on one text differ.
\<close>

lemma counting_classifier_not_steady:
  "\<not> steady counting_classifier
   \<and> fst (predict_category (demo_triager\<lparr>model := Some counting_classifier\<rparr>)
            ''I forgot my password'')
       = Inr ''0''
   \<and> fst (predict_category
            (snd (predict_category (demo_triager\<lparr>model := Some counting_classifier\<rparr>)
                    ''I forgot my password''))
            ''I forgot my password'')
       = Inr ''1''"
proof (intro conjI)
  have "reachable counting_classifier (snd (predict counting_classifier (attrs counting_classifier) [NaN]))"
    by (rule reachable.predicted [OF reachable.loaded])
  then have r: "reachable counting_classifier 1"
    by (simp add: counting_classifier_def)
  have "fst (predict counting_classifier 1 [NaN])
          \<noteq> fst (predict counting_classifier (attrs counting_classifier) [NaN])"
    by (simp add: counting_classifier_def str_nat.simps)
  with r show "\<not> steady counting_classifier"
    unfolding steady_def by blast
qed (simp_all add: counting_classifier_def predict_category_def demo_triager_def
      demo_vectorizer_def str_nat.simps)

section \<open>Training\<close>

text \<open>
  C7.  When the training file does not exist, \<^verbatim>\<open>load_training_data\<close> prints the two
  lines of the error and returns \<^verbatim>\<open>None\<close>, and \<^verbatim>\<open>main\<close> returns at once: after the
  banner and the error nothing more is printed, the file system is as it was (no artifact is
  written), and the outcome is the same for every library, so none of its calls (split, fit,
  transform, predict, score) was made.
\<close>

theorem missing_training_data_aborts:
  "(files w data_path = None \<longrightarrow>
      load_training_data w data_path =
        (Inr None,
         w\<lparr>stdout := stdout w @
            [''Error: Training data file not found at '' @ data_path,
             ''Please run 'python data/generate_synthetic.py' first to generate synthetic data.'']\<rparr>))
   \<and> (files w ''sample_data/synthetic_tickets.csv'' = None \<longrightarrow>
      main lib w =
        (Inr (),
         w\<lparr>stdout := stdout w @
            [rule50, ''AI TICKET SCHEDULER - MODEL TRAINING'', rule50,
             ''Error: Training data file not found at sample_data/synthetic_tickets.csv'',
             ''Please run 'python data/generate_synthetic.py' first to generate synthetic data.'']\<rparr>))"
  by (simp add: load_training_data_def main_def print_def)

theorem missing_training_data_aborts_witness:
  "files empty_world ''sample_data/synthetic_tickets.csv'' = None
   \<and> main failing_lib empty_world =
        (Inr (),
         \<lparr>files = Map.empty,
          stdout =
            [rule50, ''AI TICKET SCHEDULER - MODEL TRAINING'', rule50,
             ''Error: Training data file not found at sample_data/synthetic_tickets.csv'',
             ''Please run 'python data/generate_synthetic.py' first to generate synthetic data.'']\<rparr>)"
  using missing_training_data_aborts [of empty_world "''sample_data/synthetic_tickets.csv''" failing_lib]
  by (simp add: empty_world_def)

section \<open>The endpoint that creates a ticket\<close>

lemma create_ticket_both_supplied:
  assumes "TicketCreate.category ticket = Some c" and "TicketCreate.priority ticket = Some p"
  shows "\<exists>resp row. create_ticket lower stamps str globals ticket =
                       (Inr resp, globals\<lparr>db_manager := db_manager globals @ [row]\<rparr>)
           \<and> Ticket.category row = Some c \<and> Ticket.priority row = Some p
           \<and> TicketResponse.category resp = Some c \<and> TicketResponse.priority resp = Some p"
  using assms
  by (cases "TicketCreate.status ticket")
     (auto simp: create_ticket_def DatabaseManager_create_ticket_def Let_def)

lemma create_ticket_ignores_triager:
  assumes "TicketCreate.category ticket = Some c" and "TicketCreate.priority ticket = Some p"
  shows "fst (create_ticket lower stamps str (globals\<lparr>triager := tr\<rparr>) ticket)
           = fst (create_ticket lower stamps str globals ticket)"
  using assms
  by (simp add: create_ticket_def DatabaseManager_create_ticket_def Let_def split: option.splits)

lemma create_ticket_keeps_category:
  assumes "TicketCreate.category ticket = Some c" and "TicketCreate.priority ticket = None"
    and "create_ticket lower stamps str globals ticket = (Inr resp, globals')"
  shows "\<exists>row. db_manager globals' = db_manager globals @ [row]
           \<and> Ticket.category row = Some c \<and> TicketResponse.category resp = Some c
           \<and> Ticket.priority row =
               Some (predict_priority lower (triager globals)
                       (TicketCreate.title ticket @ '' '' @ TicketCreate.description ticket))
           \<and> TicketResponse.priority resp = Ticket.priority row"
  using assms
  by (auto simp: create_ticket_def triage_ticket_def dict_item_def predict_priority_def
      DatabaseManager_create_ticket_def Let_def split: prod.splits sum.splits option.splits)

lemma create_ticket_keeps_priority:
  assumes "TicketCreate.category ticket = None" and "TicketCreate.priority ticket = Some p"
    and "create_ticket lower stamps str globals ticket = (Inr resp, globals')"
  shows "\<exists>row. db_manager globals' = db_manager globals @ [row]
           \<and> Ticket.priority row = Some p \<and> TicketResponse.priority resp = Some p
           \<and> map_sum id Some (fst (predict_category (triager globals)
                       (TicketCreate.title ticket @ '' '' @ TicketCreate.description ticket)))
               = Inr (Ticket.category row)
           \<and> TicketResponse.category resp = Ticket.category row"
  using assms
  by (auto simp: create_ticket_def triage_ticket_def dict_item_def
      DatabaseManager_create_ticket_def Let_def split: prod.splits sum.splits option.splits)

text \<open>
  C10.  \<^verbatim>\<open>create_ticket\<close> with both fields supplied stores both as given, always
  succeeds, leaves the triager untouched and returns the same whatever the triager is: the
  triager is not called.  With only the category supplied, a ticket that is created stores
  that category and the priority the heuristic gives; with only the priority supplied, it
  stores that priority and the category \<^verbatim>\<open>predict_category\<close> returned.  (With one field
  omitted \<^verbatim>\<open>triage_ticket\<close> computes both predictions, so an exception of
  \<^verbatim>\<open>predict_category\<close> ends the request before a ticket is created.)
\<close>

theorem create_ticket_frame:
  "(TicketCreate.category ticket = Some c \<and> TicketCreate.priority ticket = Some p \<longrightarrow>
      (\<exists>resp row.
          create_ticket lower stamps str globals ticket =
            (Inr resp, globals\<lparr>db_manager := db_manager globals @ [row]\<rparr>)
          \<and> Ticket.category row = Some c \<and> Ticket.priority row = Some p
          \<and> TicketResponse.category resp = Some c \<and> TicketResponse.priority resp = Some p)
      \<and> (\<forall>tr. fst (create_ticket lower stamps str (globals\<lparr>triager := tr\<rparr>) ticket)
                 = fst (create_ticket lower stamps str globals ticket)))
   \<and> (TicketCreate.category ticket = Some c \<and> TicketCreate.priority ticket = None
        \<and> create_ticket lower stamps str globals ticket = (Inr resp, globals') \<longrightarrow>
      (\<exists>row. db_manager globals' = db_manager globals @ [row]
          \<and> Ticket.category row = Some c \<and> TicketResponse.category resp = Some c
          \<and> Ticket.priority row =
              Some (predict_priority lower (triager globals)
                      (TicketCreate.title ticket @ '' '' @ TicketCreate.description ticket))
          \<and> TicketResponse.priority resp = Ticket.priority row))
   \<and> (TicketCreate.category ticket = None \<and> TicketCreate.priority ticket = Some p
        \<and> create_ticket lower stamps str globals ticket = (Inr resp, globals') \<longrightarrow>
      (\<exists>row. db_manager globals' = db_manager globals @ [row]
          \<and> Ticket.priority row = Some p \<and> TicketResponse.priority resp = Some p
          \<and> map_sum id Some
               (fst (predict_category (triager globals)
                       (TicketCreate.title ticket @ '' '' @ TicketCreate.description ticket)))
              = Inr (Ticket.category row)
          \<and> TicketResponse.category resp = Ticket.category row))"
proof (intro conjI impI allI)
  assume "TicketCreate.category ticket = Some c \<and> TicketCreate.priority ticket = Some p"
  then show "\<exists>resp row.
          create_ticket lower stamps str globals ticket =
            (Inr resp, globals\<lparr>db_manager := db_manager globals @ [row]\<rparr>)
          \<and> Ticket.category row = Some c \<and> Ticket.priority row = Some p
          \<and> TicketResponse.category resp = Some c \<and> TicketResponse.priority resp = Some p"
    using create_ticket_both_supplied by blast
next
  fix tr
  assume "TicketCreate.category ticket = Some c \<and> TicketCreate.priority ticket = Some p"
  then show "fst (create_ticket lower stamps str (globals\<lparr>triager := tr\<rparr>) ticket)
                 = fst (create_ticket lower stamps str globals ticket)"
    using create_ticket_ignores_triager by blast
next
  assume "TicketCreate.category ticket = Some c \<and> TicketCreate.priority ticket = None
        \<and> create_ticket lower stamps str globals ticket = (Inr resp, globals')"
  then show "\<exists>row. db_manager globals' = db_manager globals @ [row]
          \<and> Ticket.category row = Some c \<and> TicketResponse.category resp = Some c
          \<and> Ticket.priority row =
              Some (predict_priority lower (triager globals)
                      (TicketCreate.title ticket @ '' '' @ TicketCreate.description ticket))
          \<and> TicketResponse.priority resp = Ticket.priority row"
    using create_ticket_keeps_category by blast
next
  assume "TicketCreate.category ticket = None \<and> TicketCreate.priority ticket = Some p
        \<and> create_ticket lower stamps str globals ticket = (Inr resp, globals')"
  then show "\<exists>row. db_manager globals' = db_manager globals @ [row]
          \<and> Ticket.priority row = Some p \<and> TicketResponse.priority resp = Some p
          \<and> map_sum id Some
               (fst (predict_category (triager globals)
                       (TicketCreate.title ticket @ '' '' @ TicketCreate.description ticket)))
              = Inr (Ticket.category row)
          \<and> TicketResponse.category resp = Ticket.category row"
    using create_ticket_keeps_priority by blast
qed

theorem create_ticket_frame_witness:
  "(\<exists>resp row.
       create_ticket ascii_lower (5, 6) str_nat demo_globals
         (demo_request\<lparr>TicketCreate.priority := Some ''low''\<rparr>) =
         (Inr resp, demo_globals\<lparr>db_manager := db_manager demo_globals @ [row]\<rparr>)
       \<and> Ticket.category row = Some ''hardware'' \<and> Ticket.priority row = Some ''low'')
   \<and> (\<exists>resp globals' row.
       create_ticket ascii_lower (5, 6) str_nat demo_globals demo_request = (Inr resp, globals')
       \<and> db_manager globals' = [row]
       \<and> Ticket.category row = Some ''hardware'' \<and> Ticket.priority row = Some ''high'')
   \<and> (\<exists>resp globals' row.
       create_ticket ascii_lower (5, 6) str_nat demo_globals
         (demo_request\<lparr>TicketCreate.category := None, TicketCreate.priority := Some ''low''\<rparr>) =
         (Inr resp, globals')
       \<and> db_manager globals' = [row]
       \<and> Ticket.category row = Some ''uncategorized'' \<and> Ticket.priority row = Some ''low'')"
proof (intro conjI)
  let ?both = "demo_request\<lparr>TicketCreate.priority := Some ''low''\<rparr>"
  let ?prio = "demo_request\<lparr>TicketCreate.category := None, TicketCreate.priority := Some ''low''\<rparr>"
  note frame = create_ticket_frame [where lower = ascii_lower and stamps = "(5, 6)"
      and str = str_nat and globals = demo_globals]
  have "TicketCreate.category ?both = Some ''hardware'' \<and> TicketCreate.priority ?both = Some ''low''"
    by (simp add: demo_request_def)
  with frame [where ticket = ?both and c = "''hardware''" and p = "''low''"]
  show "\<exists>resp row.
       create_ticket ascii_lower (5, 6) str_nat demo_globals ?both =
         (Inr resp, demo_globals\<lparr>db_manager := db_manager demo_globals @ [row]\<rparr>)
       \<and> Ticket.category row = Some ''hardware'' \<and> Ticket.priority row = Some ''low''"
    by blast
next
  note frame = create_ticket_frame [where lower = ascii_lower and stamps = "(5, 6)"
      and str = str_nat and globals = demo_globals]
  have h: "TicketCreate.category demo_request = Some ''hardware''
           \<and> TicketCreate.priority demo_request = None"
    by (simp add: demo_request_def)
  have "\<exists>resp globals'.
          create_ticket ascii_lower (5, 6) str_nat demo_globals demo_request = (Inr resp, globals')"
    by (simp add: create_ticket_def triage_ticket_def predict_category_def dict_item_def
        DatabaseManager_create_ticket_def demo_globals_def demo_request_def no_artifact_def
        Let_def)
  then obtain resp globals' where
    run: "create_ticket ascii_lower (5, 6) str_nat demo_globals demo_request = (Inr resp, globals')"
    by blast
  have p: "predict_priority ascii_lower (triager demo_globals)
             (TicketCreate.title demo_request @ '' '' @ TicketCreate.description demo_request)
           = ''high''"
    by (simp add: predict_priority_def demo_request_def ascii_lower_def)
  from frame [where ticket = demo_request and c = "''hardware''" and resp = resp
      and globals' = globals'] h run
  obtain row where "db_manager globals' = db_manager demo_globals @ [row]"
    "Ticket.category row = Some ''hardware''"
    "Ticket.priority row =
       Some (predict_priority ascii_lower (triager demo_globals)
         (TicketCreate.title demo_request @ '' '' @ TicketCreate.description demo_request))"
    by blast
  with p run show "\<exists>resp globals' row.
       create_ticket ascii_lower (5, 6) str_nat demo_globals demo_request = (Inr resp, globals')
       \<and> db_manager globals' = [row]
       \<and> Ticket.category row = Some ''hardware'' \<and> Ticket.priority row = Some ''high''"
    by (simp add: demo_globals_def)
next
  let ?prio = "demo_request\<lparr>TicketCreate.category := None, TicketCreate.priority := Some ''low''\<rparr>"
  note frame = create_ticket_frame [where lower = ascii_lower and stamps = "(5, 6)"
      and str = str_nat and globals = demo_globals]
  have h: "TicketCreate.category ?prio = None \<and> TicketCreate.priority ?prio = Some ''low''"
    by (simp add: demo_request_def)
  have "\<exists>resp globals'.
          create_ticket ascii_lower (5, 6) str_nat demo_globals ?prio = (Inr resp, globals')"
    by (simp add: create_ticket_def triage_ticket_def predict_category_def dict_item_def
        DatabaseManager_create_ticket_def demo_globals_def demo_request_def no_artifact_def
        Let_def)
  then obtain resp globals' where
    run: "create_ticket ascii_lower (5, 6) str_nat demo_globals ?prio = (Inr resp, globals')"
    by blast
  have c: "fst (predict_category (triager demo_globals)
             (TicketCreate.title ?prio @ '' '' @ TicketCreate.description ?prio))
           = Inr ''uncategorized''"
    by (simp add: predict_category_def demo_globals_def no_artifact_def)
  from frame [where ticket = ?prio and p = "''low''" and resp = resp and globals' = globals'] h run
  obtain row where "db_manager globals' = db_manager demo_globals @ [row]"
    "Ticket.priority row = Some ''low''"
    "map_sum id Some
       (fst (predict_category (triager demo_globals)
          (TicketCreate.title ?prio @ '' '' @ TicketCreate.description ?prio)))
      = Inr (Ticket.category row)"
    by blast
  with c run show "\<exists>resp globals' row.
       create_ticket ascii_lower (5, 6) str_nat demo_globals ?prio = (Inr resp, globals')
       \<and> db_manager globals' = [row]
       \<and> Ticket.category row = Some ''uncategorized'' \<and> Ticket.priority row = Some ''low''"
    by (simp add: demo_globals_def)
qed

lemma create_ticket_example:
  "create_ticket ascii_lower (5, 6) str_nat demo_globals demo_request =
     (Inr \<lparr>id' = 1, title = ''Printer'', description = ''The printer is broken'',
           category = Some ''hardware'', priority = Some ''high'', status = ''open'',
           created_at = ''5'', updated_at = ''6''\<rparr>,
      \<lparr>db_manager =
         [\<lparr>Ticket.id' = 1, Ticket.title = ''Printer'',
           Ticket.description = ''The printer is broken'',
           Ticket.category = Some ''hardware'', Ticket.priority = Some ''high'',
           Ticket.status = Some ''open'', Ticket.created_at = 5, Ticket.updated_at = 6\<rparr>],
       triager = no_artifact\<rparr>)"
  by (simp add: create_ticket_def triage_ticket_def predict_category_def predict_priority_def
      dict_item_def DatabaseManager_create_ticket_def demo_globals_def demo_request_def
      no_artifact_def ascii_lower_def Let_def str_nat.simps)

end
